theory Spec2Isabelle
  imports Complex_Main
begin

section \<open>The relational store\<close>

text \<open>
  The server keeps all of its state in a relational database reached through
  \<^verbatim>\<open>pool.query\<close>. Every table is a list of rows, in insertion order. The field
  names are the column names of the SQL in the source, prefixed with the alias the
  source's own queries use for the table (\<^verbatim>\<open>u\<close>, \<^verbatim>\<open>dt\<close>, \<^verbatim>\<open>ut\<close>, \<^verbatim>\<open>ua\<close>,
  \<^verbatim>\<open>r\<close>, \<^verbatim>\<open>ur\<close>) and \<^verbatim>\<open>al\<close> for \<^verbatim>\<open>activity_log\<close>, because a record field is a
  global name. Integer columns are \<^typ>\<open>int\<close>, row identifiers are \<^typ>\<open>nat\<close>, and a
  timestamp is the number of milliseconds since the epoch, which is what the
  JavaScript \<^verbatim>\<open>Date\<close> arithmetic of \<^verbatim>\<open>updateStreak\<close> computes with. A nullable column
  is an \<^typ>\<open>'a option\<close>.
\<close>

type_synonym timestamp = int

record user =
  u_id :: nat
  u_whop_user_id :: string
  u_level :: int
  u_xp :: int
  u_total_points :: int
  u_streak :: int
  u_last_activity :: "timestamp option"

record daily_task =
  dt_id :: nat
  dt_description :: string
  dt_required_count :: int
  dt_xp_reward :: int
  dt_active :: bool

record user_task =
  ut_user_id :: nat
  ut_task_id :: nat
  ut_completed :: bool
  ut_progress :: int
  ut_completed_at :: "timestamp option"
  ut_created_at :: timestamp

record user_achievement =
  ua_user_id :: nat
  ua_achievement_id :: nat
  ua_unlocked_at :: timestamp

record reward =
  r_id :: nat
  r_cost :: int
  r_active :: bool

record user_reward =
  ur_user_id :: nat
  ur_reward_id :: nat
  ur_redeemed_at :: timestamp

record activity =
  al_user_id :: nat
  al_activity_type :: string
  al_description :: string
  al_xp_earned :: int
  al_created_at :: timestamp

record db =
  users :: "user list"
  daily_tasks :: "daily_task list"
  user_tasks :: "user_task list"
  user_achievements :: "user_achievement list"
  rewards :: "reward list"
  user_rewards :: "user_reward list"
  activity_log :: "activity list"

text \<open>
  The only exception the modelled code raises by itself is the \<^verbatim>\<open>TypeError\<close> of
  reading a property of \<^verbatim>\<open>undefined\<close> (\<^verbatim>\<open>userResult.rows[0]\<close> when no row matched,
  \<^verbatim>\<open>data.user_id\<close> when the event has no payload). The helper functions are \<^verbatim>\<open>async\<close>
  and write to the store as they go, so an exception carries the store as it was
  when it was raised: what had been written stays written.
\<close>

datatype error = TypeError

type_synonym 'a result = "(error \<times> db) + ('a \<times> db)"

text \<open>\<^verbatim>\<open>SELECT ... FROM users WHERE id = $1\<close> followed by \<^verbatim>\<open>rows[0]\<close>.\<close>

definition select_user :: "nat \<Rightarrow> db \<Rightarrow> user option" where
  "select_user userId s = find (\<lambda>u. u_id u = userId) (users s)"

text \<open>\<^verbatim>\<open>UPDATE users SET ... WHERE id = $n\<close>: every row with that id is rewritten.\<close>

definition update_users :: "nat \<Rightarrow> (user \<Rightarrow> user) \<Rightarrow> db \<Rightarrow> db" where
  "update_users userId f s =
     s\<lparr>users := map (\<lambda>u. if u_id u = userId then f u else u) (users s)\<rparr>"

section \<open>Rendering a number in a template string\<close>

definition digit_char :: "nat \<Rightarrow> char" where
  "digit_char d = char_of (48 + d)"

fun string_of_nat :: "nat \<Rightarrow> string" where
  "string_of_nat n =
     (if n < 10 then [digit_char n]
      else string_of_nat (n div 10) @ [digit_char (n mod 10)])"

definition string_of_int :: "int \<Rightarrow> string" where
  "string_of_int i =
     (if i < 0 then CHR ''-'' # string_of_nat (nat (- i)) else string_of_nat (nat i))"

section \<open>The progression engine\<close>

text \<open>
  \<^verbatim>\<open>function calculateXPForLevel(level) {
    return Math.floor(100 * Math.pow(1.5, level - 1));
  }\<close>
  The source computes in IEEE doubles. The model computes the same expression in
  exact rational arithmetic. The two agree as long as every intermediate value is a
  double: \<open>1.5 ^ n\<close> is \<open>3 ^ n / 2 ^ n\<close> and \<open>100 * 1.5 ^ n\<close> is
  \<open>(100 * 3 ^ n) / 2 ^ n\<close>, dyadic rationals whose numerators stay below \<open>2 ^ 53\<close> for
  \<open>n \<le> 29\<close>, that is for every level up to 30 (lemma \<open>double_exact_range\<close> below).
\<close>

definition calculateXPForLevel :: "int \<Rightarrow> int" where
  "calculateXPForLevel level = \<lfloor>100 * (3 / 2 :: rat) powi (level - 1)\<rfloor>"

text \<open>
  \<^verbatim>\<open>async function logActivity(userId, activityType, description, xpEarned)\<close>:
  one \<^verbatim>\<open>INSERT INTO activity_log\<close>, stamped \<^verbatim>\<open>NOW()\<close>.
\<close>

definition logActivity :: "timestamp \<Rightarrow> nat \<Rightarrow> string \<Rightarrow> string \<Rightarrow> int \<Rightarrow> db \<Rightarrow> db" where
  "logActivity now userId activityType description xpEarned s =
     s\<lparr>activity_log := activity_log s @
        [\<lparr>al_user_id = userId, al_activity_type = activityType,
          al_description = description, al_xp_earned = xpEarned,
          al_created_at = now\<rparr>]\<rparr>"

text \<open>
  The object \<^verbatim>\<open>{ newLevel, newXP: remainingXP, leveledUp: newLevel > user.level }\<close>
  that \<^verbatim>\<open>awardXP\<close> returns.
\<close>

record award_result =
  ret_newLevel :: int
  ret_newXP :: int
  ret_leveledUp :: bool

text \<open>
  \<^verbatim>\<open>async function awardXP(userId, xp)\<close>, the same text in both server files. The
  user row is read, the level-up test is a single \<^verbatim>\<open>if\<close>, the \<^verbatim>\<open>level_up\<close> entry is
  logged before the one \<^verbatim>\<open>UPDATE\<close> that writes xp, level and total_points.
\<close>

definition awardXP :: "timestamp \<Rightarrow> nat \<Rightarrow> int \<Rightarrow> db \<Rightarrow> award_result result" where
  "awardXP now userId amount s =
     (case select_user userId s of
        None \<Rightarrow> Inl (TypeError, s)
      | Some user \<Rightarrow>
          let newXP = u_xp user + amount;
              newPoints = u_total_points user + amount;
              xpNeeded = calculateXPForLevel (u_level user + 1);
              levelUp = (newXP \<ge> xpNeeded);
              newLevel = (if levelUp then u_level user + 1 else u_level user);
              remainingXP = (if levelUp then newXP - xpNeeded else newXP);
              s1 = (if levelUp
                    then logActivity now userId ''level_up''
                           (''Reached Level '' @ string_of_int newLevel) 1000 s
                    else s);
              s2 = update_users userId
                     (\<lambda>u. u\<lparr>u_xp := remainingXP, u_level := newLevel,
                             u_total_points := newPoints\<rparr>) s1
          in Inr (\<lparr>ret_newLevel = newLevel, ret_newXP = remainingXP,
                   ret_leveledUp = (newLevel > u_level user)\<rparr>, s2))"

text \<open>
  \<^verbatim>\<open>async function awardAchievement(userId, achievementId, xp)\<close>: the existence test
  returns early; otherwise the unlock row is inserted, then \<^verbatim>\<open>awardXP\<close> is
  awaited, then the \<^verbatim>\<open>achievement\<close> entry is logged.
\<close>

definition awardAchievement :: "timestamp \<Rightarrow> nat \<Rightarrow> nat \<Rightarrow> int \<Rightarrow> db \<Rightarrow> unit result" where
  "awardAchievement now userId achievementId amount s =
     (let existing = filter (\<lambda>a. ua_user_id a = userId \<and> ua_achievement_id a = achievementId)
                       (user_achievements s)
      in if length existing > 0 then Inr ((), s)
         else
           let s1 = s\<lparr>user_achievements := user_achievements s @
                      [\<lparr>ua_user_id = userId, ua_achievement_id = achievementId,
                        ua_unlocked_at = now\<rparr>]\<rparr>
           in case awardXP now userId amount s1 of
                Inl e \<Rightarrow> Inl e
              | Inr (_, s2) \<Rightarrow>
                  Inr ((), logActivity now userId ''achievement'' ''Unlocked achievement''
                             amount s2))"

text \<open>
  \<^verbatim>\<open>async function updateStreak(userId)\<close>. \<^verbatim>\<open>new Date(user.last_activity)\<close> of a
  \<^verbatim>\<open>NULL\<close> column is the epoch; \<^verbatim>\<open>today - lastActivity\<close> is a difference in
  milliseconds, and \<^verbatim>\<open>Math.floor\<close> of its quotient by \<^verbatim>\<open>1000 * 60 * 60 * 24\<close> is the
  floor division of \<^typ>\<open>int\<close>. The clock of the server (\<^verbatim>\<open>new Date()\<close>) and the
  clock of the store (\<^verbatim>\<open>NOW()\<close>) are read as one instant \<open>now\<close>.
\<close>

definition updateStreak :: "timestamp \<Rightarrow> nat \<Rightarrow> db \<Rightarrow> unit result" where
  "updateStreak now userId s =
     (case select_user userId s of
        None \<Rightarrow> Inl (TypeError, s)
      | Some user \<Rightarrow>
          let lastActivity = (case u_last_activity user of None \<Rightarrow> 0 | Some t \<Rightarrow> t);
              today = now;
              daysDiff = (today - lastActivity) div (1000 * 60 * 60 * 24);
              newStreak = (if daysDiff = 1 then u_streak user + 1
                           else if daysDiff > 1 then 1
                           else u_streak user);
              s1 = update_users userId
                     (\<lambda>u. u\<lparr>u_last_activity := Some now, u_streak := newStreak\<rparr>) s
          in if newStreak = 7 then awardAchievement now userId 3 500 s1
             else if newStreak = 30 then awardAchievement now userId 6 1000 s1
             else Inr ((), s1))"

section \<open>Request handlers\<close>

text \<open>
  A response is its HTTP status and its JSON body; \<^verbatim>\<open>res.json\<close> alone answers 200.
\<close>

datatype body =
    Success
  | Success_xpEarned int
  | Success_message string
  | Error_message string

type_synonym response = "nat \<times> body"

text \<open>The SQL \<^verbatim>\<open>DATE(created_at)\<close> and \<^verbatim>\<open>CURRENT_DATE\<close>: the day number, in UTC.\<close>

definition DATE :: "timestamp \<Rightarrow> int" where
  "DATE t = t div 86400000"

definition same_day_row :: "timestamp \<Rightarrow> nat \<Rightarrow> nat \<Rightarrow> user_task \<Rightarrow> bool" where
  "same_day_row now userId taskId row \<longleftrightarrow>
     ut_user_id row = userId \<and> ut_task_id row = taskId \<and> DATE (ut_created_at row) = DATE now"

text \<open>
  Modelled from the spec: the unique index on \<^verbatim>\<open>(user_id, task_id, DATE(created_at))\<close>
  of table \<^verbatim>\<open>user_tasks\<close>, which the \<^verbatim>\<open>ON CONFLICT\<close> clause of the insert names and
  the schema (not among the sources) has to declare; the spec's data model has one
  logical row per user, task and calendar day. With it the statement
  \<^verbatim>\<open>INSERT ... ON CONFLICT (user_id, task_id, DATE(created_at))
  DO UPDATE SET completed = true, completed_at = NOW()\<close>
  rewrites the row of that key when there is one and inserts a row otherwise.
\<close>

definition upsert_user_task :: "timestamp \<Rightarrow> nat \<Rightarrow> nat \<Rightarrow> int \<Rightarrow> db \<Rightarrow> db" where
  "upsert_user_task now userId taskId progress s =
     (case find (same_day_row now userId taskId) (user_tasks s) of
        Some _ \<Rightarrow>
          s\<lparr>user_tasks := map (\<lambda>row. if same_day_row now userId taskId row
                                      then row\<lparr>ut_completed := True, ut_completed_at := Some now\<rparr>
                                      else row) (user_tasks s)\<rparr>
      | None \<Rightarrow>
          s\<lparr>user_tasks := user_tasks s @
             [\<lparr>ut_user_id = userId, ut_task_id = taskId, ut_completed = True,
               ut_progress = progress, ut_completed_at = Some now, ut_created_at = now\<rparr>]\<rparr>)"

text \<open>
  \<^verbatim>\<open>app.post('/api/tasks/complete', ...)\<close> of the full server (the source file
  with routes for webhooks, streaks and achievements). \<open>userId\<close> is
  \<^verbatim>\<open>req.user.userId\<close> of the verified token, \<open>taskId\<close> is \<^verbatim>\<open>req.body.taskId\<close>. An
  exception of a helper is caught by the handler's \<^verbatim>\<open>catch\<close> and answered 500.
\<close>

definition post_api_tasks_complete :: "timestamp \<Rightarrow> nat \<Rightarrow> nat \<Rightarrow> db \<Rightarrow> db \<times> response" where
  "post_api_tasks_complete now userId taskId s =
     (case find (\<lambda>t. dt_id t = taskId) (daily_tasks s) of
        None \<Rightarrow> (s, (404, Error_message ''Task not found''))
      | Some task \<Rightarrow>
          let existingTask = filter (same_day_row now userId taskId) (user_tasks s)
          in if length existingTask > 0 \<and> ut_completed (hd existingTask)
             then (s, (400, Error_message ''Task already completed today''))
             else
               let s1 = upsert_user_task now userId taskId (dt_required_count task) s
               in case awardXP now userId (dt_xp_reward task) s1 of
                    Inl (_, s') \<Rightarrow> (s', (500, Error_message ''Failed to complete task''))
                  | Inr (_, s2) \<Rightarrow>
                      (case updateStreak now userId s2 of
                         Inl (_, s') \<Rightarrow> (s', (500, Error_message ''Failed to complete task''))
                       | Inr (_, s3) \<Rightarrow> (s3, (200, Success_xpEarned (dt_xp_reward task)))))"

text \<open>
  The same route in \<^verbatim>\<open>server.js\<close>, the reduced copy of the server: no look at
  today's rows, a plain \<^verbatim>\<open>INSERT\<close>, \<^verbatim>\<open>awardXP\<close>, and no \<^verbatim>\<open>updateStreak\<close> (that file
  has neither streaks nor achievements).
\<close>

definition post_api_tasks_complete_server_js ::
    "timestamp \<Rightarrow> nat \<Rightarrow> nat \<Rightarrow> db \<Rightarrow> db \<times> response" where
  "post_api_tasks_complete_server_js now userId taskId s =
     (case find (\<lambda>t. dt_id t = taskId) (daily_tasks s) of
        None \<Rightarrow> (s, (404, Error_message ''Task not found''))
      | Some task \<Rightarrow>
          let s1 = s\<lparr>user_tasks := user_tasks s @
                     [\<lparr>ut_user_id = userId, ut_task_id = taskId, ut_completed = True,
                       ut_progress = dt_required_count task, ut_completed_at = Some now,
                       ut_created_at = now\<rparr>]\<rparr>
          in case awardXP now userId (dt_xp_reward task) s1 of
               Inl (_, s') \<Rightarrow> (s', (500, Error_message ''Failed to complete task''))
             | Inr (_, s2) \<Rightarrow> (s2, (200, Success_xpEarned (dt_xp_reward task))))"

text \<open>
  \<^verbatim>\<open>app.post('/api/rewards/redeem', ...)\<close>, the same text in both server files. The
  decrement is the relative \<^verbatim>\<open>SET total_points = total_points - $1\<close>.
\<close>

definition post_api_rewards_redeem :: "timestamp \<Rightarrow> nat \<Rightarrow> nat \<Rightarrow> db \<Rightarrow> db \<times> response" where
  "post_api_rewards_redeem now userId rewardId s =
     (case find (\<lambda>r. r_id r = rewardId \<and> r_active r) (rewards s) of
        None \<Rightarrow> (s, (404, Error_message ''Reward not found''))
      | Some reward \<Rightarrow>
          (case select_user userId s of
             None \<Rightarrow> (s, (500, Error_message ''Failed to redeem reward''))
           | Some user \<Rightarrow>
               if u_total_points user < r_cost reward
               then (s, (400, Error_message ''Insufficient points''))
               else
                 let s1 = update_users userId
                            (\<lambda>u. u\<lparr>u_total_points := u_total_points u - r_cost reward\<rparr>) s;
                     s2 = s1\<lparr>user_rewards := user_rewards s1 @
                            [\<lparr>ur_user_id = userId, ur_reward_id = rewardId,
                              ur_redeemed_at = now\<rparr>]\<rparr>
                 in (s2, (200, Success_message ''Reward redeemed successfully''))))"

section \<open>Webhooks\<close>

text \<open>
  The event envelope \<^verbatim>\<open>req.body\<close>: \<^verbatim>\<open>event.type\<close> and \<^verbatim>\<open>event.data\<close>, which may be
  missing, with \<^verbatim>\<open>data.user_id\<close>, which may be missing too (an \<^verbatim>\<open>undefined\<close>
  parameter reaches the store as \<^verbatim>\<open>NULL\<close> and matches no row).
\<close>

record event_data =
  data_user_id :: "string option"

record webhook_event =
  ev_type :: string
  ev_data :: "event_data option"

definition getUserByWhopId :: "string option \<Rightarrow> db \<Rightarrow> user option" where
  "getUserByWhopId whopUserId s =
     (case whopUserId of
        None \<Rightarrow> None
      | Some w \<Rightarrow> find (\<lambda>u. u_whop_user_id u = w) (users s))"

text \<open>\<^verbatim>\<open>SELECT COUNT(*) FROM activity_log WHERE user_id = $1 AND activity_type = ...\<close>\<close>

definition count_activity :: "nat \<Rightarrow> string \<Rightarrow> db \<Rightarrow> nat" where
  "count_activity userId activityType s =
     length (filter (\<lambda>a. al_user_id a = userId \<and> al_activity_type a = activityType)
               (activity_log s))"

definition checkMessageAchievements :: "timestamp \<Rightarrow> nat \<Rightarrow> db \<Rightarrow> unit result" where
  "checkMessageAchievements now userId s =
     (if count_activity userId ''message'' s \<ge> 50
      then awardAchievement now userId 2 250 s
      else Inr ((), s))"

definition checkPostAchievements :: "timestamp \<Rightarrow> nat \<Rightarrow> db \<Rightarrow> unit result" where
  "checkPostAchievements now userId s =
     (if count_activity userId ''post'' s \<ge> 25
      then awardAchievement now userId 5 750 s
      else Inr ((), s))"

definition handleMessageCreated :: "timestamp \<Rightarrow> event_data option \<Rightarrow> db \<Rightarrow> unit result" where
  "handleMessageCreated now data s =
     (case data of
        None \<Rightarrow> Inl (TypeError, s)
      | Some d \<Rightarrow>
          (case getUserByWhopId (data_user_id d) s of
             None \<Rightarrow> Inr ((), s)
           | Some user \<Rightarrow>
               (case awardXP now (u_id user) 10 s of
                  Inl e \<Rightarrow> Inl e
                | Inr (_, s1) \<Rightarrow> checkMessageAchievements now (u_id user) s1)))"

definition handlePostCreated :: "timestamp \<Rightarrow> event_data option \<Rightarrow> db \<Rightarrow> unit result" where
  "handlePostCreated now data s =
     (case data of
        None \<Rightarrow> Inl (TypeError, s)
      | Some d \<Rightarrow>
          (case getUserByWhopId (data_user_id d) s of
             None \<Rightarrow> Inr ((), s)
           | Some user \<Rightarrow>
               (case awardXP now (u_id user) 50 s of
                  Inl e \<Rightarrow> Inl e
                | Inr (_, s1) \<Rightarrow> checkPostAchievements now (u_id user) s1)))"

definition handleReactionAdded :: "timestamp \<Rightarrow> event_data option \<Rightarrow> db \<Rightarrow> unit result" where
  "handleReactionAdded now data s =
     (case data of
        None \<Rightarrow> Inl (TypeError, s)
      | Some d \<Rightarrow>
          (case getUserByWhopId (data_user_id d) s of
             None \<Rightarrow> Inr ((), s)
           | Some user \<Rightarrow>
               (case awardXP now (u_id user) 5 s of
                  Inl e \<Rightarrow> Inl e
                | Inr (_, s1) \<Rightarrow> Inr ((), s1))))"

definition handleMemberJoined :: "timestamp \<Rightarrow> event_data option \<Rightarrow> db \<Rightarrow> unit result" where
  "handleMemberJoined now data s = Inr ((), s)"

text \<open>
  \<^verbatim>\<open>app.post('/webhooks/whop', ...)\<close> of the full server: a \<^verbatim>\<open>switch\<close> on
  \<^verbatim>\<open>event.type\<close>, whose default only writes to the console, inside a \<^verbatim>\<open>try\<close> whose
  \<^verbatim>\<open>catch\<close> answers 500.
\<close>

definition post_webhooks_whop :: "timestamp \<Rightarrow> webhook_event \<Rightarrow> db \<Rightarrow> db \<times> response" where
  "post_webhooks_whop now event s =
     (case (if ev_type event = ''message.created'' then handleMessageCreated now (ev_data event) s
            else if ev_type event = ''post.created'' then handlePostCreated now (ev_data event) s
            else if ev_type event = ''reaction.added'' then handleReactionAdded now (ev_data event) s
            else if ev_type event = ''member.joined'' then handleMemberJoined now (ev_data event) s
            else Inr ((), s)) of
        Inl (_, s') \<Rightarrow> (s', (500, Error_message ''Webhook processing failed''))
      | Inr (_, s') \<Rightarrow> (s', (200, Success)))"

text \<open>A sequence of webhook deliveries, each at its own instant.\<close>

fun deliver :: "(timestamp \<times> webhook_event) list \<Rightarrow> db \<Rightarrow> db" where
  "deliver [] s = s"
| "deliver ((now, event) # rest) s = deliver rest (fst (post_webhooks_whop now event s))"

section \<open>The words of the specification\<close>



text \<open>
  The bound the specification's data model puts on a user row: its xp is below
  the xp required for the level after its own.
\<close>

definition xp_below_next_level :: "user \<Rightarrow> bool" where
  "xp_below_next_level u \<longleftrightarrow> u_xp u < calculateXPForLevel (u_level u + 1)"

section \<open>Concrete stores\<close>

text \<open>
  The store a helper leaves behind, whether it returned or threw.
\<close>

definition store_after :: "'a result \<Rightarrow> db" where
  "store_after r = (case r of Inl (_, s) \<Rightarrow> s | Inr (_, s) \<Rightarrow> s)"

text \<open>
  A user as the OAuth callback of the full server leaves it after the first login:
  created at level 1 with no xp, then credited the 100 XP of achievement 1
  (\<open>First Steps\<close>), which is below the 150 XP of level 2.
\<close>

definition example_user :: user where
  "example_user = \<lparr>u_id = 41, u_whop_user_id = ''user_abc'', u_level = 1, u_xp = 100,
     u_total_points = 100, u_streak = 0, u_last_activity = None\<rparr>"

definition example_db :: db where
  "example_db = \<lparr>users = [example_user], daily_tasks = [], user_tasks = [],
     user_achievements = [\<lparr>ua_user_id = 41, ua_achievement_id = 1, ua_unlocked_at = 0\<rparr>],
     rewards = [], user_rewards = [],
     activity_log = [\<lparr>al_user_id = 41, al_activity_type = ''achievement'',
        al_description = ''Unlocked achievement'', al_xp_earned = 100, al_created_at = 0\<rparr>]\<rparr>"

text \<open>
  A second user, with 1200 points, and a shop with one active reward of cost 500
  and one withdrawn reward.
\<close>

definition rich_user :: user where
  "rich_user = \<lparr>u_id = 42, u_whop_user_id = ''user_xyz'', u_level = 3, u_xp = 50,
     u_total_points = 1200, u_streak = 6, u_last_activity = Some 86400000\<rparr>"

definition shop_db :: db where
  "shop_db = example_db\<lparr>users := [example_user, rich_user],
     rewards := [\<lparr>r_id = 1, r_cost = 500, r_active = True\<rparr>,
                 \<lparr>r_id = 2, r_cost = 10, r_active = False\<rparr>]\<rparr>"

text \<open>
  The rows of \<^verbatim>\<open>user_rewards\<close> that record a redemption of one reward by one user,
  and the shop after the second user has redeemed reward 1 once.
\<close>

definition holds_reward :: "nat \<Rightarrow> nat \<Rightarrow> user_reward \<Rightarrow> bool" where
  "holds_reward userId rewardId x \<longleftrightarrow> ur_user_id x = userId \<and> ur_reward_id x = rewardId"

definition after_first_redeem :: db where
  "after_first_redeem = fst (post_api_rewards_redeem 9 42 1 shop_db)"

text \<open>
  The rows of \<^verbatim>\<open>user_achievements\<close> that record the unlock of one achievement by
  one user.
\<close>

definition holds_achievement :: "nat \<Rightarrow> nat \<Rightarrow> user_achievement \<Rightarrow> bool" where
  "holds_achievement userId achievementId a \<longleftrightarrow>
     ua_user_id a = userId \<and> ua_achievement_id a = achievementId"

text \<open>
  The value of the local \<^verbatim>\<open>daysDiff\<close> of \<^verbatim>\<open>updateStreak\<close> for a user row read at
  instant \<open>now\<close>.
\<close>

definition daysDiff :: "timestamp \<Rightarrow> user \<Rightarrow> int" where
  "daysDiff now user =
     (now - (case u_last_activity user of None \<Rightarrow> 0 | Some t \<Rightarrow> t)) div (1000 * 60 * 60 * 24)"




text \<open>
  Webhook events: a message of the example user, and an event of any type about an
  external id that no local user has.
\<close>

definition message_event :: webhook_event where
  "message_event =
     \<lparr>ev_type = ''message.created'', ev_data = Some \<lparr>data_user_id = Some ''user_abc''\<rparr>\<rparr>"

definition stranger_event :: "string \<Rightarrow> webhook_event" where
  "stranger_event type = \<lparr>ev_type = type, ev_data = Some \<lparr>data_user_id = Some ''nobody''\<rparr>\<rparr>"

text \<open>
  The shop with a task catalog of one task worth 80 XP, and the same store after
  the first user has completed that task on day 2 at 00:30 UTC.
\<close>

definition task_db :: db where
  "task_db = shop_db\<lparr>daily_tasks :=
     [\<lparr>dt_id = 5, dt_description = ''Send 5 messages'', dt_required_count = 5,
       dt_xp_reward = 80, dt_active = True\<rparr>]\<rparr>"

definition done_db :: db where
  "done_db = task_db\<lparr>user_tasks :=
     [\<lparr>ut_user_id = 41, ut_task_id = 5, ut_completed = True, ut_progress = 5,
       ut_completed_at = Some 174600000, ut_created_at = 174600000\<rparr>]\<rparr>"

section \<open>Reading and writing the users table\<close>

lemma find_map_same:
  "(\<And>u. u_id (f u) = u_id u) \<Longrightarrow>
   find (\<lambda>u. u_id u = i) (map (\<lambda>u. if u_id u = i then f u else u) xs) =
   map_option f (find (\<lambda>u. u_id u = i) xs)"
  by (induction xs) simp_all

lemma find_map_other:
  "(\<And>u. u_id (f u) = u_id u) \<Longrightarrow> j \<noteq> i \<Longrightarrow>
   find (\<lambda>u. u_id u = j) (map (\<lambda>u. if u_id u = i then f u else u) xs) =
   find (\<lambda>u. u_id u = j) xs"
  by (induction xs) simp_all

lemma select_user_update_same:
  "(\<And>u. u_id (f u) = u_id u) \<Longrightarrow>
   select_user i (update_users i f s) = map_option f (select_user i s)"
  by (simp add: select_user_def update_users_def find_map_same)

lemma select_user_update_other:
  "(\<And>u. u_id (f u) = u_id u) \<Longrightarrow> j \<noteq> i \<Longrightarrow>
   select_user j (update_users i f s) = select_user j s"
  by (simp add: select_user_def update_users_def find_map_other)

lemma select_user_logActivity [simp]:
  "select_user i (logActivity now u t d x s) = select_user i s"
  by (simp add: select_user_def logActivity_def)

lemma update_users_tables [simp]:
  "daily_tasks (update_users i f s) = daily_tasks s"
  "user_tasks (update_users i f s) = user_tasks s"
  "user_achievements (update_users i f s) = user_achievements s"
  "rewards (update_users i f s) = rewards s"
  "user_rewards (update_users i f s) = user_rewards s"
  "activity_log (update_users i f s) = activity_log s"
  by (simp_all add: update_users_def)

lemma logActivity_tables [simp]:
  "users (logActivity now u t d x s) = users s"
  "daily_tasks (logActivity now u t d x s) = daily_tasks s"
  "user_tasks (logActivity now u t d x s) = user_tasks s"
  "user_achievements (logActivity now u t d x s) = user_achievements s"
  "rewards (logActivity now u t d x s) = rewards s"
  "user_rewards (logActivity now u t d x s) = user_rewards s"
  by (simp_all add: logActivity_def)

lemma activity_log_logActivity:
  "activity_log (logActivity now u t d x s) = activity_log s @
     [\<lparr>al_user_id = u, al_activity_type = t, al_description = d, al_xp_earned = x,
       al_created_at = now\<rparr>]"
  by (simp add: logActivity_def)

lemma example_user_fields:
  "u_id example_user = 41" "u_level example_user = 1" "u_xp example_user = 100"
  "u_total_points example_user = 100" "u_streak example_user = 0"
  "u_last_activity example_user = None" "u_whop_user_id example_user = ''user_abc''"
  by (simp_all add: example_user_def)

lemma select_example_user: "select_user 41 example_db = Some example_user"
  by (simp add: select_user_def example_db_def example_user_def)

section \<open>The level curve\<close>

lemma calc_pos_level:
  "1 \<le> L \<Longrightarrow> calculateXPForLevel L = \<lfloor>100 * (3 / 2 :: rat) ^ nat (L - 1)\<rfloor>"
  by (simp add: calculateXPForLevel_def power_int_def)

text \<open>In integers: \<open>100 * 3 ^ n\<close> divided by \<open>2 ^ n\<close>, for \<open>n = L - 1\<close>.\<close>

lemma calc_div:
  assumes "1 \<le> L"
  shows "calculateXPForLevel L = (100 * 3 ^ nat (L - 1)) div 2 ^ nat (L - 1)"
proof -
  define n where "n = nat (L - 1)"
  have "100 * (3 / 2 :: rat) ^ n = of_int (100 * 3 ^ n) / of_int (2 ^ n)"
    by (simp add: power_divide)
  then have "\<lfloor>100 * (3 / 2 :: rat) ^ n\<rfloor> = (100 * 3 ^ n) div 2 ^ n"
    by (simp only: floor_divide_of_int_eq)
  then show ?thesis
    using assms by (simp add: calc_pos_level n_def)
qed

text \<open>
  The range on which the double computation of the source is exact: up to level
  30 the numerator of \<open>100 * 1.5 ^ (L - 1)\<close> fits the 53 bits of a double's
  significand.
\<close>

lemma double_exact_range:
  assumes "n \<le> 29"
  shows "100 * 3 ^ n < (2 :: nat) ^ 53"
proof -
  from assms have "(3::nat) ^ n \<le> 3 ^ 29"
    by (intro power_increasing) simp_all
  then show ?thesis by simp
qed


lemma calc_nonneg: "0 \<le> calculateXPForLevel L"
  by (simp add: calculateXPForLevel_def)



lemma calc_values:
  "calculateXPForLevel 1 = 100" "calculateXPForLevel 2 = 150" "calculateXPForLevel 3 = 225"
  "calculateXPForLevel 4 = 337" "calculateXPForLevel 5 = 506"
  by code_simp+



section \<open>Awarding XP\<close>

lemma awardXP_level_up:
  assumes "select_user userId s = Some user"
    and "calculateXPForLevel (u_level user + 1) \<le> u_xp user + amount"
  shows "awardXP now userId amount s =
     Inr (\<lparr>ret_newLevel = u_level user + 1,
           ret_newXP = u_xp user + amount - calculateXPForLevel (u_level user + 1),
           ret_leveledUp = True\<rparr>,
          update_users userId
            (\<lambda>u. u\<lparr>u_xp := u_xp user + amount - calculateXPForLevel (u_level user + 1),
                    u_level := u_level user + 1,
                    u_total_points := u_total_points user + amount\<rparr>)
            (logActivity now userId ''level_up''
               (''Reached Level '' @ string_of_int (u_level user + 1)) 1000 s))"
  using assms by (simp add: awardXP_def Let_def)

lemma awardXP_no_level_up:
  assumes "select_user userId s = Some user"
    and "u_xp user + amount < calculateXPForLevel (u_level user + 1)"
  shows "awardXP now userId amount s =
     Inr (\<lparr>ret_newLevel = u_level user, ret_newXP = u_xp user + amount,
           ret_leveledUp = False\<rparr>,
          update_users userId
            (\<lambda>u. u\<lparr>u_xp := u_xp user + amount, u_level := u_level user,
                    u_total_points := u_total_points user + amount\<rparr>) s)"
  using assms by (simp add: awardXP_def Let_def)

text \<open>
  Claim C2. \<open>awardXP\<close> on an existing user advances the level by at most one. When
  xp plus the amount reaches the xp required for the next level, the level becomes
  \<open>L + 1\<close>, the xp becomes the surplus over that one threshold, and one \<open>level_up\<close>
  entry with \<open>xp_earned\<close> 1000 is appended to the activity log; otherwise the level
  stays and the xp is the sum, and nothing is logged. In both cases total_points
  grows by exactly the amount (the 1000 of the log entry is credited nowhere), the
  returned level and xp are the stored ones, and \<open>leveledUp\<close> says whether the level
  increased. The amount need not be non-negative for any of this.
\<close>

theorem awardXP_at_most_one_level:
  assumes "select_user userId s = Some user"
  shows "\<exists>res s' user'.
     awardXP now userId amount s = Inr (res, s') \<and> select_user userId s' = Some user' \<and>
     u_total_points user' = u_total_points user + amount \<and>
     (ret_leveledUp res \<longleftrightarrow> u_level user < u_level user') \<and>
     ret_newLevel res = u_level user' \<and> ret_newXP res = u_xp user' \<and>
     (if calculateXPForLevel (u_level user + 1) \<le> u_xp user + amount
      then u_level user' = u_level user + 1 \<and>
           u_xp user' = u_xp user + amount - calculateXPForLevel (u_level user + 1) \<and>
           activity_log s' = activity_log s @
             [\<lparr>al_user_id = userId, al_activity_type = ''level_up'',
               al_description = ''Reached Level '' @ string_of_int (u_level user + 1),
               al_xp_earned = 1000, al_created_at = now\<rparr>]
      else u_level user' = u_level user \<and> u_xp user' = u_xp user + amount \<and>
           activity_log s' = activity_log s)"
proof (cases "calculateXPForLevel (u_level user + 1) \<le> u_xp user + amount")
  case True
  show ?thesis
    using assms True
    by (simp add: awardXP_level_up [OF assms True] select_user_update_same
        activity_log_logActivity)
next
  case False
  then have lt: "u_xp user + amount < calculateXPForLevel (u_level user + 1)"
    by simp
  show ?thesis
    using assms False
    by (simp add: awardXP_no_level_up [OF assms lt] select_user_update_same)
qed

theorem awardXP_at_most_one_level_witness:
  "select_user 41 example_db = Some example_user \<and>
   (\<exists>res s' user'.
     awardXP 7 41 80 example_db = Inr (res, s') \<and> select_user 41 s' = Some user' \<and>
     u_total_points user' = 180 \<and> ret_leveledUp res \<and> u_level user' = 2 \<and> u_xp user' = 30 \<and>
     activity_log s' = activity_log example_db @
             [\<lparr>al_user_id = 41, al_activity_type = ''level_up'',
               al_description = ''Reached Level '' @ string_of_int 2,
               al_xp_earned = 1000, al_created_at = 7\<rparr>]) \<and>
   (\<exists>res s' user'.
     awardXP 7 41 20 example_db = Inr (res, s') \<and> select_user 41 s' = Some user' \<and>
     u_total_points user' = 120 \<and> \<not> ret_leveledUp res \<and> u_level user' = 1 \<and>
     u_xp user' = 120 \<and> activity_log s' = activity_log example_db)"
proof -
  have h: "select_user 41 example_db = Some example_user"
    by (simp add: select_user_def example_db_def example_user_def)
  show ?thesis
    using h awardXP_at_most_one_level [OF h, of 7 80] awardXP_at_most_one_level [OF h, of 7 20]
    by (auto simp: example_user_fields calc_values)
qed

text \<open>
  Claim C1 as stated fails. The user of the example store is at level 1 with 100
  xp, below the 150 of level 2. An award of 500 takes the one level the code ever
  takes per call and leaves 450 xp at level 2, where level 3 needs 225.
\<close>

theorem awardXP_xp_bound_counterexample:
  "(0::int) \<le> 500 \<and> select_user 41 example_db = Some example_user \<and>
   xp_below_next_level example_user \<and>
   map_option (\<lambda>u. (u_level u, u_xp u, xp_below_next_level u))
     (select_user 41 (store_after (awardXP 7 41 500 example_db))) = Some (2, 450, False)"
proof -
  have lv: "calculateXPForLevel (u_level example_user + 1) \<le> u_xp example_user + 500"
    by (simp add: example_user_fields calc_values)
  show ?thesis
    by (simp add: awardXP_level_up [OF select_example_user lv] store_after_def select_example_user
        select_user_update_same xp_below_next_level_def example_user_fields calc_values)
qed

text \<open>
  Claim C1, amended. After one \<open>awardXP\<close> on an existing user at level \<open>L\<close>, the
  stored xp is below the xp required for the level after the stored one exactly
  when xp plus the amount is below the sum of the requirements of levels \<open>L + 1\<close>
  and \<open>L + 2\<close>. In particular the bound survives the call when it held before and
  the amount is at most the requirement of level \<open>L + 2\<close>.
\<close>

theorem awardXP_xp_bound_iff:
  assumes "select_user userId s = Some user"
  shows "\<exists>res s' user'.
     awardXP now userId amount s = Inr (res, s') \<and> select_user userId s' = Some user' \<and>
     (xp_below_next_level user' \<longleftrightarrow>
        u_xp user + amount <
          calculateXPForLevel (u_level user + 1) + calculateXPForLevel (u_level user + 2)) \<and>
     (xp_below_next_level user \<and> amount \<le> calculateXPForLevel (u_level user + 2)
        \<longrightarrow> xp_below_next_level user')"
proof (cases "calculateXPForLevel (u_level user + 1) \<le> u_xp user + amount")
  case True
  let ?u' = "user\<lparr>u_xp := u_xp user + amount - calculateXPForLevel (u_level user + 1),
                  u_level := u_level user + 1,
                  u_total_points := u_total_points user + amount\<rparr>"
  have two: "calculateXPForLevel (u_level user + 1 + 1) = calculateXPForLevel (u_level user + 2)"
    by (simp add: add.commute)
  have fields: "u_xp ?u' = u_xp user + amount - calculateXPForLevel (u_level user + 1)"
    "u_level ?u' = u_level user + 1"
    by simp_all
  have below: "xp_below_next_level ?u' \<longleftrightarrow>
        u_xp user + amount <
          calculateXPForLevel (u_level user + 1) + calculateXPForLevel (u_level user + 2)"
    unfolding xp_below_next_level_def fields two by linarith
  have small: "xp_below_next_level user \<and> amount \<le> calculateXPForLevel (u_level user + 2)
        \<longrightarrow> xp_below_next_level ?u'"
    unfolding below by (simp add: xp_below_next_level_def)
  have "select_user userId
          (update_users userId (\<lambda>u. u\<lparr>u_xp := u_xp ?u', u_level := u_level ?u',
                                        u_total_points := u_total_points ?u'\<rparr>)
             (logActivity now userId ''level_up''
                (''Reached Level '' @ string_of_int (u_level user + 1)) 1000 s)) = Some ?u'"
    using assms by (simp add: select_user_update_same)
  then show ?thesis
    using below small by (simp add: awardXP_level_up [OF assms True])
next
  case False
  then have lt: "u_xp user + amount < calculateXPForLevel (u_level user + 1)"
    by simp
  let ?u' = "user\<lparr>u_xp := u_xp user + amount, u_level := u_level user,
                  u_total_points := u_total_points user + amount\<rparr>"
  have below: "xp_below_next_level ?u'"
    using lt by (simp add: xp_below_next_level_def)
  have sum: "u_xp user + amount <
          calculateXPForLevel (u_level user + 1) + calculateXPForLevel (u_level user + 2)"
    using lt calc_nonneg [of "u_level user + 2"] by linarith
  have "select_user userId
          (update_users userId (\<lambda>u. u\<lparr>u_xp := u_xp ?u', u_level := u_level ?u',
                                        u_total_points := u_total_points ?u'\<rparr>) s) = Some ?u'"
    using assms by (simp add: select_user_update_same)
  then show ?thesis
    using below sum by (simp add: awardXP_no_level_up [OF assms lt])
qed

theorem awardXP_xp_bound_iff_witness:
  "select_user 41 example_db = Some example_user \<and> xp_below_next_level example_user \<and>
   (80::int) \<le> calculateXPForLevel (u_level example_user + 2) \<and>
   (\<exists>res s' user'.
     awardXP 7 41 80 example_db = Inr (res, s') \<and> select_user 41 s' = Some user' \<and>
     xp_below_next_level user')"
proof -
  have h: "select_user 41 example_db = Some example_user"
    by (rule select_example_user)
  have b: "xp_below_next_level example_user"
    by (simp add: xp_below_next_level_def example_user_fields calc_values)
  have a: "(80::int) \<le> calculateXPForLevel (u_level example_user + 2)"
    by (simp add: example_user_fields calc_values)
  show ?thesis
    using h a b awardXP_xp_bound_iff [OF h, of 7 80]
    by auto
qed

section \<open>Redeeming rewards\<close>

lemma rich_user_fields:
  "u_id rich_user = 42" "u_level rich_user = 3" "u_xp rich_user = 50"
  "u_total_points rich_user = 1200" "u_streak rich_user = 6"
  "u_last_activity rich_user = Some 86400000" "u_whop_user_id rich_user = ''user_xyz''"
  by (simp_all add: rich_user_def)

lemma shop_db_tables:
  "users shop_db = [example_user, rich_user]"
  "rewards shop_db = [\<lparr>r_id = 1, r_cost = 500, r_active = True\<rparr>,
                 \<lparr>r_id = 2, r_cost = 10, r_active = False\<rparr>]"
  "user_rewards shop_db = []"
  "daily_tasks shop_db = []" "user_tasks shop_db = []"
  "user_achievements shop_db = [\<lparr>ua_user_id = 41, ua_achievement_id = 1, ua_unlocked_at = 0\<rparr>]"
  by (simp_all add: shop_db_def example_db_def)

lemma select_shop_users:
  "select_user 41 shop_db = Some example_user" "select_user 42 shop_db = Some rich_user"
  by (simp_all add: select_user_def shop_db_tables example_user_fields rich_user_fields)

lemma redeem_success:
  assumes "find (\<lambda>r. r_id r = rewardId \<and> r_active r) (rewards s) = Some reward"
    and "select_user userId s = Some user"
    and "r_cost reward \<le> u_total_points user"
  shows "post_api_rewards_redeem now userId rewardId s =
     ((update_users userId (\<lambda>u. u\<lparr>u_total_points := u_total_points u - r_cost reward\<rparr>) s)
        \<lparr>user_rewards := user_rewards s @
           [\<lparr>ur_user_id = userId, ur_reward_id = rewardId, ur_redeemed_at = now\<rparr>]\<rparr>,
      (200, Success_message ''Reward redeemed successfully''))"
  using assms by (simp add: post_api_rewards_redeem_def Let_def)

lemma redeem_insufficient:
  assumes "find (\<lambda>r. r_id r = rewardId \<and> r_active r) (rewards s) = Some reward"
    and "select_user userId s = Some user"
    and "u_total_points user < r_cost reward"
  shows "post_api_rewards_redeem now userId rewardId s =
     (s, (400, Error_message ''Insufficient points''))"
  using assms by (simp add: post_api_rewards_redeem_def)

lemma select_user_user_rewards [simp]:
  "select_user i (s\<lparr>user_rewards := x\<rparr>) = select_user i s"
  by (simp add: select_user_def)

text \<open>
  Claim C3. For a user with \<open>P\<close> points and an active reward of cost \<open>C\<close>, the
  redeem route answers success exactly when \<open>P \<ge> C\<close>. On success the user's
  total_points is \<open>P - C\<close>, which is not negative, and one redemption row is
  appended. When \<open>P < C\<close> the answer is the 400 \<open>Insufficient points\<close> and the store
  is the one before the call.
\<close>

theorem redeem_iff_enough_points:
  assumes "find (\<lambda>r. r_id r = rewardId \<and> r_active r) (rewards s) = Some reward"
    and "select_user userId s = Some user"
  shows "(fst (snd (post_api_rewards_redeem now userId rewardId s)) = 200
            \<longleftrightarrow> r_cost reward \<le> u_total_points user) \<and>
         (r_cost reward \<le> u_total_points user \<longrightarrow>
            (\<exists>s'. post_api_rewards_redeem now userId rewardId s =
                     (s', (200, Success_message ''Reward redeemed successfully'')) \<and>
                   select_user userId s' =
                     Some (user\<lparr>u_total_points := u_total_points user - r_cost reward\<rparr>) \<and>
                   0 \<le> u_total_points user - r_cost reward \<and>
                   user_rewards s' = user_rewards s @
                     [\<lparr>ur_user_id = userId, ur_reward_id = rewardId, ur_redeemed_at = now\<rparr>])) \<and>
         (u_total_points user < r_cost reward \<longrightarrow>
            post_api_rewards_redeem now userId rewardId s =
              (s, (400, Error_message ''Insufficient points'')))"
proof (cases "r_cost reward \<le> u_total_points user")
  case True
  show ?thesis
    using True assms(2)
    by (simp add: redeem_success [OF assms True] select_user_update_same)
next
  case False
  then have lt: "u_total_points user < r_cost reward" by simp
  show ?thesis
    using False by (simp add: redeem_insufficient [OF assms lt])
qed

theorem redeem_iff_enough_points_witness:
  "find (\<lambda>r. r_id r = 1 \<and> r_active r) (rewards shop_db) = Some \<lparr>r_id = 1, r_cost = 500, r_active = True\<rparr> \<and>
   select_user 42 shop_db = Some rich_user \<and> select_user 41 shop_db = Some example_user \<and>
   (\<exists>s'. post_api_rewards_redeem 9 42 1 shop_db =
            (s', (200, Success_message ''Reward redeemed successfully'')) \<and>
          select_user 42 s' = Some (rich_user\<lparr>u_total_points := 700\<rparr>) \<and>
          user_rewards s' = [\<lparr>ur_user_id = 42, ur_reward_id = 1, ur_redeemed_at = 9\<rparr>]) \<and>
   post_api_rewards_redeem 9 41 1 shop_db = (shop_db, (400, Error_message ''Insufficient points''))"
proof -
  have r: "find (\<lambda>r. r_id r = 1 \<and> r_active r) (rewards shop_db) =
             Some \<lparr>r_id = 1, r_cost = 500, r_active = True\<rparr>"
    by (simp add: shop_db_tables)
  have u2: "select_user 42 shop_db = Some rich_user" and u1: "select_user 41 shop_db = Some example_user"
    by (rule select_shop_users)+
  show ?thesis
    using r u1 u2 redeem_iff_enough_points [OF r u2, of 9] redeem_iff_enough_points [OF r u1, of 9]
    by (auto simp: rich_user_fields example_user_fields shop_db_tables)
qed

text \<open>
  Claim C10. Redemption is not once-only: when the user already has a redemption
  row for the reward and still has at least its cost in points, the route succeeds
  again, appends another redemption row for the same user and reward, and takes the
  cost off total_points once more.
\<close>

theorem redeem_again_succeeds:
  assumes "find (\<lambda>r. r_id r = rewardId \<and> r_active r) (rewards s) = Some reward"
    and "select_user userId s = Some user"
    and "filter (holds_reward userId rewardId) (user_rewards s) \<noteq> []"
    and "r_cost reward \<le> u_total_points user"
  shows "\<exists>s'. post_api_rewards_redeem now userId rewardId s =
                (s', (200, Success_message ''Reward redeemed successfully'')) \<and>
              filter (holds_reward userId rewardId) (user_rewards s') =
                filter (holds_reward userId rewardId) (user_rewards s) @
                  [\<lparr>ur_user_id = userId, ur_reward_id = rewardId, ur_redeemed_at = now\<rparr>] \<and>
              select_user userId s' =
                Some (user\<lparr>u_total_points := u_total_points user - r_cost reward\<rparr>)"
  using assms(2)
  by (simp add: redeem_success [OF assms(1,2,4)] select_user_update_same holds_reward_def)

lemma after_first_redeem_eq:
  "after_first_redeem = shop_db\<lparr>users := [example_user, rich_user\<lparr>u_total_points := 700\<rparr>],
      user_rewards := [\<lparr>ur_user_id = 42, ur_reward_id = 1, ur_redeemed_at = 9\<rparr>]\<rparr>"
  by (simp add: after_first_redeem_def post_api_rewards_redeem_def shop_db_tables select_shop_users
      update_users_def rich_user_fields example_user_fields Let_def)

theorem redeem_again_succeeds_witness:
  "find (\<lambda>r. r_id r = 1 \<and> r_active r) (rewards after_first_redeem) =
      Some \<lparr>r_id = 1, r_cost = 500, r_active = True\<rparr> \<and>
   select_user 42 after_first_redeem = Some (rich_user\<lparr>u_total_points := 700\<rparr>) \<and>
   filter (holds_reward 42 1) (user_rewards after_first_redeem) \<noteq> [] \<and>
   (\<exists>s'. post_api_rewards_redeem 12 42 1 after_first_redeem =
            (s', (200, Success_message ''Reward redeemed successfully'')) \<and>
          filter (holds_reward 42 1) (user_rewards s') =
            [\<lparr>ur_user_id = 42, ur_reward_id = 1, ur_redeemed_at = 9\<rparr>,
             \<lparr>ur_user_id = 42, ur_reward_id = 1, ur_redeemed_at = 12\<rparr>] \<and>
          select_user 42 s' = Some (rich_user\<lparr>u_total_points := 200\<rparr>))"
proof -
  have r: "find (\<lambda>r. r_id r = 1 \<and> r_active r) (rewards after_first_redeem) =
             Some \<lparr>r_id = 1, r_cost = 500, r_active = True\<rparr>"
    by (simp add: after_first_redeem_eq shop_db_tables)
  have u: "select_user 42 after_first_redeem = Some (rich_user\<lparr>u_total_points := 700\<rparr>)"
    by (simp add: after_first_redeem_eq select_user_def example_user_fields rich_user_fields)
  have h: "filter (holds_reward 42 1) (user_rewards after_first_redeem) \<noteq> []"
    by (simp add: after_first_redeem_eq holds_reward_def)
  have c: "r_cost \<lparr>r_id = 1, r_cost = 500, r_active = True\<rparr>
             \<le> u_total_points (rich_user\<lparr>u_total_points := 700\<rparr>)"
    by simp
  show ?thesis
    using r u h redeem_again_succeeds [OF r u h c, of 12]
    by (auto simp: after_first_redeem_eq holds_reward_def)
qed

section \<open>Unlocking achievements\<close>

lemma awardXP_frame:
  assumes "select_user userId s = Some user"
  shows "\<exists>res s' user'.
     awardXP now userId amount s = Inr (res, s') \<and> select_user userId s' = Some user' \<and>
     u_total_points user' = u_total_points user + amount \<and>
     u_streak user' = u_streak user \<and> u_last_activity user' = u_last_activity user \<and>
     u_id user' = u_id user \<and> u_whop_user_id user' = u_whop_user_id user \<and>
     user_achievements s' = user_achievements s \<and> user_tasks s' = user_tasks s \<and>
     daily_tasks s' = daily_tasks s \<and> rewards s' = rewards s \<and>
     user_rewards s' = user_rewards s"
proof (cases "calculateXPForLevel (u_level user + 1) \<le> u_xp user + amount")
  case True
  show ?thesis
    using assms by (simp add: awardXP_level_up [OF assms True] select_user_update_same)
next
  case False
  then have lt: "u_xp user + amount < calculateXPForLevel (u_level user + 1)"
    by simp
  show ?thesis
    using assms by (simp add: awardXP_no_level_up [OF assms lt] select_user_update_same)
qed

lemma select_user_user_achievements [simp]:
  "select_user i (s\<lparr>user_achievements := x\<rparr>) = select_user i s"
  by (simp add: select_user_def)

lemma awardAchievement_present:
  assumes "filter (holds_achievement userId achievementId) (user_achievements s) \<noteq> []"
  shows "awardAchievement now userId achievementId amount s = Inr ((), s)"
proof -
  have "filter (\<lambda>a. ua_user_id a = userId \<and> ua_achievement_id a = achievementId)
          (user_achievements s) = filter (holds_achievement userId achievementId) (user_achievements s)"
    by (simp add: holds_achievement_def [abs_def])
  with assms show ?thesis
    by (simp add: awardAchievement_def)
qed

lemma awardAchievement_absent:
  assumes "select_user userId s = Some user"
    and "filter (holds_achievement userId achievementId) (user_achievements s) = []"
  shows "\<exists>s' user'.
     awardAchievement now userId achievementId amount s = Inr ((), s') \<and>
     select_user userId s' = Some user' \<and>
     u_total_points user' = u_total_points user + amount \<and>
     u_streak user' = u_streak user \<and> u_last_activity user' = u_last_activity user \<and>
     user_achievements s' = user_achievements s @
       [\<lparr>ua_user_id = userId, ua_achievement_id = achievementId, ua_unlocked_at = now\<rparr>] \<and>
     user_tasks s' = user_tasks s \<and>
     filter (\<lambda>a. al_user_id a = userId \<and> al_activity_type a = ''achievement'') (activity_log s') =
       filter (\<lambda>a. al_user_id a = userId \<and> al_activity_type a = ''achievement'') (activity_log s) @
       [\<lparr>al_user_id = userId, al_activity_type = ''achievement'',
         al_description = ''Unlocked achievement'', al_xp_earned = amount, al_created_at = now\<rparr>]"
proof -
  let ?s1 = "s\<lparr>user_achievements := user_achievements s @
              [\<lparr>ua_user_id = userId, ua_achievement_id = achievementId, ua_unlocked_at = now\<rparr>]\<rparr>"
  have empty: "filter (\<lambda>a. ua_user_id a = userId \<and> ua_achievement_id a = achievementId)
          (user_achievements s) = []"
    using assms(2) by (simp add: holds_achievement_def [abs_def])
  have u1: "select_user userId ?s1 = Some user"
    using assms(1) by simp
  from awardXP_frame [OF u1, of now amount] obtain res s2 user' where
    a: "awardXP now userId amount ?s1 = Inr (res, s2)" and
    b: "select_user userId s2 = Some user'" "u_total_points user' = u_total_points user + amount"
       "u_streak user' = u_streak user" "u_last_activity user' = u_last_activity user"
       "user_achievements s2 = user_achievements ?s1" "user_tasks s2 = user_tasks ?s1"
    by blast
  have log: "filter (\<lambda>a. al_user_id a = userId \<and> al_activity_type a = ''achievement'') (activity_log s2)
     = filter (\<lambda>a. al_user_id a = userId \<and> al_activity_type a = ''achievement'') (activity_log s)"
    using a u1
    by (auto simp: awardXP_def Let_def activity_log_logActivity split: if_splits)
  have "awardAchievement now userId achievementId amount s =
          Inr ((), logActivity now userId ''achievement'' ''Unlocked achievement'' amount s2)"
    using a empty by (simp add: awardAchievement_def Let_def)
  then show ?thesis
    using b log by (simp add: activity_log_logActivity)
qed

text \<open>
  Claim C4. \<open>awardAchievement\<close> is idempotent. For an existing user, a second
  invocation after a first one returns without changing the store, whatever the
  instant. When the achievement was not unlocked before, the two invocations leave
  exactly one unlock row for the pair, the one the first wrote, and total_points
  has grown by the bonus once; when it was unlocked before, the first invocation
  changes nothing either.
\<close>

theorem awardAchievement_idempotent:
  assumes "select_user userId s = Some user"
  shows "\<exists>s1 user1.
     awardAchievement now userId achievementId amount s = Inr ((), s1) \<and>
     awardAchievement later userId achievementId amount s1 = Inr ((), s1) \<and>
     select_user userId s1 = Some user1 \<and>
     (if filter (holds_achievement userId achievementId) (user_achievements s) = []
      then filter (holds_achievement userId achievementId) (user_achievements s1) =
             [\<lparr>ua_user_id = userId, ua_achievement_id = achievementId, ua_unlocked_at = now\<rparr>] \<and>
           u_total_points user1 = u_total_points user + amount
      else s1 = s)"
proof (cases "filter (holds_achievement userId achievementId) (user_achievements s) = []")
  case True
  from awardAchievement_absent [OF assms True, of now amount] obtain s1 user1 where
    a: "awardAchievement now userId achievementId amount s = Inr ((), s1)" and
    b: "select_user userId s1 = Some user1" "u_total_points user1 = u_total_points user + amount" and
    c: "user_achievements s1 = user_achievements s @
       [\<lparr>ua_user_id = userId, ua_achievement_id = achievementId, ua_unlocked_at = now\<rparr>]"
    by blast
  have one: "filter (holds_achievement userId achievementId) (user_achievements s1) =
             [\<lparr>ua_user_id = userId, ua_achievement_id = achievementId, ua_unlocked_at = now\<rparr>]"
    using True by (simp add: c) (simp add: holds_achievement_def)
  then have "filter (holds_achievement userId achievementId) (user_achievements s1) \<noteq> []"
    by simp
  then have "awardAchievement later userId achievementId amount s1 = Inr ((), s1)"
    by (rule awardAchievement_present)
  with a b one True show ?thesis
    by simp
next
  case False
  then show ?thesis
    using assms by (simp add: awardAchievement_present)
qed

theorem awardAchievement_idempotent_witness:
  "select_user 41 example_db = Some example_user \<and>
   filter (holds_achievement 41 3) (user_achievements example_db) = [] \<and>
   filter (holds_achievement 41 1) (user_achievements example_db) \<noteq> [] \<and>
   (\<exists>s1 user1.
     awardAchievement 5 41 3 500 example_db = Inr ((), s1) \<and>
     awardAchievement 6 41 3 500 s1 = Inr ((), s1) \<and>
     select_user 41 s1 = Some user1 \<and>
     filter (holds_achievement 41 3) (user_achievements s1) =
       [\<lparr>ua_user_id = 41, ua_achievement_id = 3, ua_unlocked_at = 5\<rparr>] \<and>
     u_total_points user1 = 600) \<and>
   awardAchievement 5 41 1 100 example_db = Inr ((), example_db)"
proof -
  have h: "select_user 41 example_db = Some example_user"
    by (rule select_example_user)
  have n3: "filter (holds_achievement 41 3) (user_achievements example_db) = []"
    and n1: "filter (holds_achievement 41 1) (user_achievements example_db) \<noteq> []"
    by (simp_all add: example_db_def holds_achievement_def)
  show ?thesis
    using h n3 n1 awardAchievement_idempotent [OF h, of 5 3 500 6]
      awardAchievement_idempotent [OF h, of 5 1 100 6]
    by (auto simp: example_user_fields)
qed

section \<open>Streaks\<close>

lemma updateStreak_unfold:
  assumes "select_user userId s = Some user"
  shows "updateStreak now userId s =
     (let newStreak = (if daysDiff now user = 1 then u_streak user + 1
                       else if daysDiff now user > 1 then 1 else u_streak user);
          s1 = update_users userId
                 (\<lambda>u. u\<lparr>u_last_activity := Some now, u_streak := newStreak\<rparr>) s
      in if newStreak = 7 then awardAchievement now userId 3 500 s1
         else if newStreak = 30 then awardAchievement now userId 6 1000 s1
         else Inr ((), s1))"
  using assms by (simp add: updateStreak_def daysDiff_def Let_def)

lemma awardAchievement_user:
  assumes "select_user userId s = Some user"
  shows "\<exists>s' user'.
     awardAchievement now userId achievementId amount s = Inr ((), s') \<and>
     select_user userId s' = Some user' \<and>
     u_streak user' = u_streak user \<and> u_last_activity user' = u_last_activity user \<and>
     user_tasks s' = user_tasks s \<and>
     filter (holds_achievement userId achievementId) (user_achievements s') \<noteq> [] \<and>
     (if filter (holds_achievement userId achievementId) (user_achievements s) = []
      then user_achievements s' = user_achievements s @
             [\<lparr>ua_user_id = userId, ua_achievement_id = achievementId, ua_unlocked_at = now\<rparr>] \<and>
           u_total_points user' = u_total_points user + amount
      else s' = s)"
proof (cases "filter (holds_achievement userId achievementId) (user_achievements s) = []")
  case True
  from awardAchievement_absent [OF assms True, of now amount] show ?thesis
    using True by (auto simp: holds_achievement_def)
next
  case False
  then show ?thesis
    using assms by (simp add: awardAchievement_present)
qed








section \<open>Webhook deliveries\<close>

lemma find_map_pred:
  "(\<And>x. P (g x) = P x) \<Longrightarrow> find P (map g xs) = map_option g (find P xs)"
  by (induction xs) simp_all

lemma find_Some_holds: "find P xs = Some x \<Longrightarrow> x \<in> set xs \<and> P x"
  by (induction xs) (auto split: if_splits)

lemma find_by_id_of_member: "u \<in> set xs \<Longrightarrow> find (\<lambda>v. u_id v = u_id u) xs \<noteq> None"
  by (induction xs) auto

lemma getUserByWhopId_select:
  assumes "getUserByWhopId w s = Some u"
  shows "\<exists>user. select_user (u_id u) s = Some user"
proof -
  from assms obtain x where "find (\<lambda>v. u_whop_user_id v = x) (users s) = Some u"
    by (auto simp: getUserByWhopId_def split: option.splits)
  then have "u \<in> set (users s)"
    by (simp add: find_Some_holds)
  then show ?thesis
    using find_by_id_of_member [of u "users s"] by (auto simp: select_user_def)
qed

lemma getUserByWhopId_update_users:
  assumes "\<And>u. u_whop_user_id (f u) = u_whop_user_id u"
  shows "getUserByWhopId w (update_users i f s) =
         map_option (\<lambda>u. if u_id u = i then f u else u) (getUserByWhopId w s)"
proof (cases w)
  case None
  then show ?thesis by (simp add: getUserByWhopId_def)
next
  case (Some x)
  have "find (\<lambda>u. u_whop_user_id u = x) (map (\<lambda>u. if u_id u = i then f u else u) (users s)) =
        map_option (\<lambda>u. if u_id u = i then f u else u) (find (\<lambda>u. u_whop_user_id u = x) (users s))"
    by (rule find_map_pred) (simp add: assms)
  with Some show ?thesis
    by (simp add: getUserByWhopId_def update_users_def)
qed

lemma getUserByWhopId_logActivity [simp]:
  "getUserByWhopId w (logActivity now u t d x s) = getUserByWhopId w s"
  by (cases w) (simp_all add: getUserByWhopId_def)

lemma count_activity_update_users [simp]:
  "count_activity j t (update_users i f s) = count_activity j t s"
  by (simp add: count_activity_def)

lemma count_activity_logActivity:
  "count_activity j t (logActivity now u t' d x s) =
     count_activity j t s + (if u = j \<and> t' = t then 1 else 0)"
  by (simp add: count_activity_def activity_log_logActivity)

text \<open>
  What \<open>awardXP\<close> leaves alone: the identity of every user row, every unlock row,
  and the number of activity rows of any type but \<open>level_up\<close>.
\<close>

lemma awardXP_keeps:
  assumes "select_user i s = Some user" and "getUserByWhopId w s = Some u"
    and "t \<noteq> ''level_up''"
  shows "\<exists>res s' u'.
     awardXP now i amount s = Inr (res, s') \<and>
     getUserByWhopId w s' = Some u' \<and> u_id u' = u_id u \<and>
     count_activity j t s' = count_activity j t s \<and>
     user_achievements s' = user_achievements s"
proof (cases "calculateXPForLevel (u_level user + 1) \<le> u_xp user + amount")
  case True
  show ?thesis
    using assms(2,3)
    by (simp add: awardXP_level_up [OF assms(1) True] getUserByWhopId_update_users
        count_activity_logActivity)
next
  case False
  then have lt: "u_xp user + amount < calculateXPForLevel (u_level user + 1)"
    by simp
  show ?thesis
    using assms(2)
    by (simp add: awardXP_no_level_up [OF assms(1) lt] getUserByWhopId_update_users)
qed

lemma handleMessageCreated_keeps:
  assumes "getUserByWhopId (Some w) s = Some u"
    and "count_activity (u_id u) ''message'' s = 0"
  shows "\<exists>s' u'.
     handleMessageCreated now (Some \<lparr>data_user_id = Some w\<rparr>) s = Inr ((), s') \<and>
     getUserByWhopId (Some w) s' = Some u' \<and> u_id u' = u_id u \<and>
     count_activity (u_id u) ''message'' s' = 0 \<and>
     user_achievements s' = user_achievements s"
proof -
  from getUserByWhopId_select [OF assms(1)] obtain user where
    sel: "select_user (u_id u) s = Some user"
    by blast
  have ne: "''message'' \<noteq> ''level_up''"
    by simp
  from awardXP_keeps [OF sel assms(1) ne, of now 10 "u_id u"] obtain res s1 u' where
    a: "awardXP now (u_id u) 10 s = Inr (res, s1)" and
    k: "getUserByWhopId (Some w) s1 = Some u'" "u_id u' = u_id u"
       "count_activity (u_id u) ''message'' s1 = count_activity (u_id u) ''message'' s"
       "user_achievements s1 = user_achievements s"
    by blast
  have "checkMessageAchievements now (u_id u) s1 = Inr ((), s1)"
    using k(3) assms(2) by (simp add: checkMessageAchievements_def)
  then have "handleMessageCreated now (Some \<lparr>data_user_id = Some w\<rparr>) s = Inr ((), s1)"
    using assms(1) a by (simp add: handleMessageCreated_def)
  then show ?thesis
    using k assms(2) by simp
qed

lemma deliver_messages_keep:
  assumes "getUserByWhopId (Some ''user_abc'') s = Some u"
    and "count_activity (u_id u) ''message'' s = 0"
  shows "\<exists>u'. getUserByWhopId (Some ''user_abc'') (deliver (map (\<lambda>t. (t, message_event)) ts) s) = Some u' \<and>
     u_id u' = u_id u \<and>
     count_activity (u_id u) ''message'' (deliver (map (\<lambda>t. (t, message_event)) ts) s) = 0 \<and>
     user_achievements (deliver (map (\<lambda>t. (t, message_event)) ts) s) = user_achievements s"
  using assms
proof (induction ts arbitrary: s u)
  case Nil
  then show ?case by simp
next
  case (Cons t ts)
  from handleMessageCreated_keeps [OF Cons.prems, of t] obtain s1 u1 where
    h: "handleMessageCreated t (Some \<lparr>data_user_id = Some ''user_abc''\<rparr>) s = Inr ((), s1)" and
    k: "getUserByWhopId (Some ''user_abc'') s1 = Some u1" "u_id u1 = u_id u"
       "count_activity (u_id u) ''message'' s1 = 0" "user_achievements s1 = user_achievements s"
    by blast
  have step: "fst (post_webhooks_whop t message_event s) = s1"
    using h by (simp add: post_webhooks_whop_def message_event_def)
  from k have "count_activity (u_id u1) ''message'' s1 = 0"
    by simp
  from Cons.IH [OF k(1) this] show ?case
    using k by (simp add: step)
qed

text \<open>
  Claim C8, where the code departs from it. The store of the example has one user,
  known to the platform as \<open>user_abc\<close>, and no \<open>message\<close> row. Whatever the number of
  \<open>message.created\<close> events delivered for that user and whatever their instants,
  fifty of them included, the number of \<open>message\<close> rows stays 0, because no handler
  ever logs one, and achievement 2 (\<open>Chatterbox\<close>) is never unlocked.
\<close>

theorem message_events_never_unlock_chatterbox:
  "count_activity 41 ''message'' example_db = 0 \<and>
   count_activity 41 ''message'' (deliver (map (\<lambda>t. (t, message_event)) ts) example_db) = 0 \<and>
   filter (holds_achievement 41 2)
     (user_achievements (deliver (map (\<lambda>t. (t, message_event)) ts) example_db)) = []"
proof -
  have u: "getUserByWhopId (Some ''user_abc'') example_db = Some example_user"
    by (simp add: getUserByWhopId_def example_db_def example_user_fields)
  have c: "count_activity (u_id example_user) ''message'' example_db = 0"
    by (simp add: count_activity_def example_db_def)
  have a: "filter (holds_achievement 41 2) (user_achievements example_db) = []"
    by (simp add: example_db_def holds_achievement_def)
  from deliver_messages_keep [OF u c, of ts] have
    "count_activity 41 ''message'' (deliver (map (\<lambda>t. (t, message_event)) ts) example_db) = 0"
    "user_achievements (deliver (map (\<lambda>t. (t, message_event)) ts) example_db) =
       user_achievements example_db"
    by (auto simp: example_user_fields)
  with a c show ?thesis
    by (simp add: example_user_fields)
qed

text \<open>
  The remaining branches of the dispatch: \<open>member.joined\<close> and every type the
  \<^verbatim>\<open>switch\<close> does not name are acknowledged with the store untouched.
\<close>

lemma webhook_other_types_no_effect:
  assumes "ev_type event \<noteq> ''message.created''" and "ev_type event \<noteq> ''post.created''"
    and "ev_type event \<noteq> ''reaction.added''"
  shows "post_webhooks_whop now event s = (s, (200, Success))"
  using assms by (simp add: post_webhooks_whop_def handleMemberJoined_def)

text \<open>
  Claim C9. A \<open>message.created\<close>, \<open>post.created\<close> or \<open>reaction.added\<close> event whose
  payload names an external user id that no local user has (or names none) leaves
  the store as it was, and the endpoint answers success.
\<close>

theorem webhook_unknown_user_no_effect:
  assumes "ev_type event = ''message.created'' \<or> ev_type event = ''post.created'' \<or>
           ev_type event = ''reaction.added''"
    and "ev_data event = Some d"
    and "getUserByWhopId (data_user_id d) s = None"
  shows "post_webhooks_whop now event s = (s, (200, Success))"
  using assms
  by (auto simp: post_webhooks_whop_def handleMessageCreated_def handlePostCreated_def
      handleReactionAdded_def)

theorem webhook_unknown_user_no_effect_witness:
  "ev_type (stranger_event ''post.created'') = ''post.created'' \<and>
   ev_data (stranger_event ''post.created'') = Some \<lparr>data_user_id = Some ''nobody''\<rparr> \<and>
   getUserByWhopId (data_user_id \<lparr>data_user_id = Some ''nobody''\<rparr>) shop_db = None \<and>
   post_webhooks_whop 5 (stranger_event ''post.created'') shop_db = (shop_db, (200, Success))"
proof -
  have t: "ev_type (stranger_event ''post.created'') = ''message.created'' \<or>
           ev_type (stranger_event ''post.created'') = ''post.created'' \<or>
           ev_type (stranger_event ''post.created'') = ''reaction.added''"
    by (simp add: stranger_event_def)
  have d: "ev_data (stranger_event ''post.created'') = Some \<lparr>data_user_id = Some ''nobody''\<rparr>"
    by (simp add: stranger_event_def)
  have n: "getUserByWhopId (data_user_id \<lparr>data_user_id = Some ''nobody''\<rparr>) shop_db = None"
    by (simp add: getUserByWhopId_def shop_db_tables example_user_fields rich_user_fields)
  show ?thesis
    using d n webhook_unknown_user_no_effect [OF t d n, of 5]
    by (simp add: stranger_event_def)
qed

section \<open>Completing a task\<close>

lemma filter_map_pred:
  "(\<And>x. P (g x) = P x) \<Longrightarrow> filter P (map g xs) = map g (filter P xs)"
  by (induction xs) simp_all

lemma find_filter: "find P xs = (case filter P xs of [] \<Rightarrow> None | x # _ \<Rightarrow> Some x)"
  by (induction xs) simp_all

lemma find_single:
  assumes "find P xs = Some r" and "length (filter P xs) \<le> 1"
  shows "filter P xs = [r]"
proof (cases "filter P xs")
  case Nil
  with assms(1) show ?thesis by (simp add: find_filter)
next
  case (Cons x rest)
  with assms(2) have "rest = []" by simp
  with Cons assms(1) show ?thesis by (simp add: find_filter)
qed

lemma select_user_user_tasks [simp]:
  "select_user i (s\<lparr>user_tasks := x\<rparr>) = select_user i s"
  by (simp add: select_user_def)

lemma select_user_upsert [simp]:
  "select_user i (upsert_user_task now userId taskId progress s) = select_user i s"
  by (simp add: upsert_user_task_def split: option.splits)

text \<open>
  Under the unique index, after the upsert today's rows of the user for the task
  are exactly one row, and it is completed.
\<close>

lemma upsert_today:
  assumes "length (filter (same_day_row now userId taskId) (user_tasks s)) \<le> 1"
  shows "\<exists>row. filter (same_day_row now userId taskId)
                  (user_tasks (upsert_user_task now userId taskId progress s)) = [row] \<and>
               ut_completed row"
proof (cases "find (same_day_row now userId taskId) (user_tasks s)")
  case None
  then have "filter (same_day_row now userId taskId) (user_tasks s) = []"
    by (simp add: find_filter split: list.splits)
  with None show ?thesis
    by (simp add: upsert_user_task_def same_day_row_def)
next
  case (Some r)
  let ?g = "\<lambda>row. if same_day_row now userId taskId row
                  then row\<lparr>ut_completed := True, ut_completed_at := Some now\<rparr> else row"
  have keep: "same_day_row now userId taskId (?g x) = same_day_row now userId taskId x" for x
    by (simp add: same_day_row_def)
  have one: "filter (same_day_row now userId taskId) (user_tasks s) = [r]"
    using Some assms by (rule find_single)
  then have r: "same_day_row now userId taskId r"
    by (metis filter_eq_ConsD)
  have "filter (same_day_row now userId taskId) (map ?g (user_tasks s)) =
          map ?g (filter (same_day_row now userId taskId) (user_tasks s))"
    using keep by (rule filter_map_pred)
  with one r Some show ?thesis
    by (simp add: upsert_user_task_def)
qed

lemma updateStreak_keeps:
  assumes "select_user userId s = Some user"
  shows "\<exists>s' user'. updateStreak now userId s = Inr ((), s') \<and> user_tasks s' = user_tasks s \<and>
           select_user userId s' = Some user' \<and> u_last_activity user' = Some now"
proof -
  define newStreak where "newStreak =
     (if daysDiff now user = 1 then u_streak user + 1
      else if daysDiff now user > 1 then 1 else u_streak user)"
  define s1 where "s1 = update_users userId
                 (\<lambda>u. u\<lparr>u_last_activity := Some now, u_streak := newStreak\<rparr>) s"
  have u1: "\<exists>user1. select_user userId s1 = Some user1 \<and> u_last_activity user1 = Some now"
    using assms by (simp add: s1_def select_user_update_same)
  have t1: "user_tasks s1 = user_tasks s"
    by (simp add: s1_def)
  have run: "updateStreak now userId s =
     (if newStreak = 7 then awardAchievement now userId 3 500 s1
      else if newStreak = 30 then awardAchievement now userId 6 1000 s1
      else Inr ((), s1))"
    by (simp add: updateStreak_unfold [OF assms] Let_def newStreak_def s1_def)
  from u1 obtain user1 where
    sel: "select_user userId s1 = Some user1" and act: "u_last_activity user1 = Some now"
    by blast
  from awardAchievement_user [OF sel] have
    "\<exists>s' user'. awardAchievement now userId a x s1 = Inr ((), s') \<and>
       user_tasks s' = user_tasks s1 \<and> select_user userId s' = Some user' \<and>
       u_last_activity user' = u_last_activity user1" for a x
    by blast
  then show ?thesis
    unfolding run using t1 sel act by auto
qed

text \<open>
  Claim C7, amended. With the unique index on (user, task, day) and an existing
  user row, the route of the full server answers 404 for a task that is not in the
  catalog; answers 400 and leaves the store as it was when today's row of the user
  for the task is completed; and otherwise leaves exactly one row for today, a
  completed one, awards the task's \<open>xp_reward\<close> through \<open>awardXP\<close>, runs
  \<open>updateStreak\<close> on the result, and answers the XP earned. The route of
  \<open>server.js\<close> answers the same 404; on the first completion of the day it appends
  the one completed row, awards the \<open>xp_reward\<close> through \<open>awardXP\<close> and answers the
  XP earned, and it does not run \<open>updateStreak\<close>: streak and \<open>last_activity\<close> stay
  as they were.
\<close>

theorem complete_task_both_servers:
  assumes "length (filter (same_day_row now userId taskId) (user_tasks s)) \<le> 1"
    and "select_user userId s = Some user"
  shows "case find (\<lambda>t. dt_id t = taskId) (daily_tasks s) of
     None \<Rightarrow>
       post_api_tasks_complete now userId taskId s = (s, (404, Error_message ''Task not found'')) \<and>
       post_api_tasks_complete_server_js now userId taskId s =
         (s, (404, Error_message ''Task not found''))
   | Some task \<Rightarrow>
       (if list_ex (\<lambda>row. same_day_row now userId taskId row \<and> ut_completed row) (user_tasks s)
        then post_api_tasks_complete now userId taskId s =
               (s, (400, Error_message ''Task already completed today''))
        else (\<exists>res s2 s3 row.
               awardXP now userId (dt_xp_reward task)
                 (upsert_user_task now userId taskId (dt_required_count task) s) = Inr (res, s2) \<and>
               updateStreak now userId s2 = Inr ((), s3) \<and>
               post_api_tasks_complete now userId taskId s =
                 (s3, (200, Success_xpEarned (dt_xp_reward task))) \<and>
               filter (same_day_row now userId taskId) (user_tasks s3) = [row] \<and>
               ut_completed row)) \<and>
       (filter (same_day_row now userId taskId) (user_tasks s) = [] \<longrightarrow>
          (\<exists>res s2 user' row.
             awardXP now userId (dt_xp_reward task) (s\<lparr>user_tasks := user_tasks s @ [row]\<rparr>) =
               Inr (res, s2) \<and>
             post_api_tasks_complete_server_js now userId taskId s =
               (s2, (200, Success_xpEarned (dt_xp_reward task))) \<and>
             filter (same_day_row now userId taskId) (user_tasks s2) = [row] \<and>
             ut_completed row \<and>
             select_user userId s2 = Some user' \<and>
             u_total_points user' = u_total_points user + dt_xp_reward task \<and>
             u_streak user' = u_streak user \<and> u_last_activity user' = u_last_activity user))"
proof (cases "find (\<lambda>t. dt_id t = taskId) (daily_tasks s)")
  case None
  then show ?thesis
    by (simp add: post_api_tasks_complete_def post_api_tasks_complete_server_js_def)
next
  case (Some task)
  let ?today = "filter (same_day_row now userId taskId) (user_tasks s)"
  let ?done = "list_ex (\<lambda>row. same_day_row now userId taskId row \<and> ut_completed row) (user_tasks s)"
  have done_iff: "?done \<longleftrightarrow> length ?today > 0 \<and> ut_completed (hd ?today)"
  proof (cases ?today)
    case Nil
    then have "\<forall>row \<in> set (user_tasks s). \<not> same_day_row now userId taskId row"
      by (simp add: filter_empty_conv)
    with Nil show ?thesis
      by (auto simp: list_ex_iff)
  next
    case (Cons r rest)
    with assms(1) have single: "?today = [r]"
      by simp
    have "?done \<longleftrightarrow> (\<exists>row \<in> set ?today. ut_completed row)"
      by (auto simp: list_ex_iff)
    with single show ?thesis
      by simp
  qed
  have full: "if ?done
        then post_api_tasks_complete now userId taskId s =
               (s, (400, Error_message ''Task already completed today''))
        else (\<exists>res s2 s3 row.
               awardXP now userId (dt_xp_reward task)
                 (upsert_user_task now userId taskId (dt_required_count task) s) = Inr (res, s2) \<and>
               updateStreak now userId s2 = Inr ((), s3) \<and>
               post_api_tasks_complete now userId taskId s =
                 (s3, (200, Success_xpEarned (dt_xp_reward task))) \<and>
               filter (same_day_row now userId taskId) (user_tasks s3) = [row] \<and>
               ut_completed row)"
  proof (cases ?done)
    case True
    then show ?thesis
      using Some done_iff by (simp add: post_api_tasks_complete_def Let_def)
  next
    case False
    let ?s1 = "upsert_user_task now userId taskId (dt_required_count task) s"
    have u1: "select_user userId ?s1 = Some user"
      using assms(2) by simp
    from awardXP_frame [OF u1, of now "dt_xp_reward task"] obtain res s2 user2 where
      a: "awardXP now userId (dt_xp_reward task) ?s1 = Inr (res, s2)" and
      b: "select_user userId s2 = Some user2" "user_tasks s2 = user_tasks ?s1"
      by blast
    from updateStreak_keeps [OF b(1), of now] obtain s3 user3 where
      c: "updateStreak now userId s2 = Inr ((), s3)" "user_tasks s3 = user_tasks s2"
      by blast
    from upsert_today [OF assms(1), of "dt_required_count task"] obtain row where
      d: "filter (same_day_row now userId taskId) (user_tasks ?s1) = [row]" "ut_completed row"
      by blast
    have "post_api_tasks_complete now userId taskId s =
            (s3, (200, Success_xpEarned (dt_xp_reward task)))"
      using Some False done_iff a c(1) by (simp add: post_api_tasks_complete_def Let_def)
    with a b c d False show ?thesis
      by simp
  qed
  have reduced: "?today = [] \<longrightarrow>
          (\<exists>res s2 user' row.
             awardXP now userId (dt_xp_reward task) (s\<lparr>user_tasks := user_tasks s @ [row]\<rparr>) =
               Inr (res, s2) \<and>
             post_api_tasks_complete_server_js now userId taskId s =
               (s2, (200, Success_xpEarned (dt_xp_reward task))) \<and>
             filter (same_day_row now userId taskId) (user_tasks s2) = [row] \<and>
             ut_completed row \<and>
             select_user userId s2 = Some user' \<and>
             u_total_points user' = u_total_points user + dt_xp_reward task \<and>
             u_streak user' = u_streak user \<and> u_last_activity user' = u_last_activity user)"
  proof
    assume none: "?today = []"
    let ?row = "\<lparr>ut_user_id = userId, ut_task_id = taskId, ut_completed = True,
                 ut_progress = dt_required_count task, ut_completed_at = Some now,
                 ut_created_at = now\<rparr>"
    let ?s1 = "s\<lparr>user_tasks := user_tasks s @ [?row]\<rparr>"
    have u1: "select_user userId ?s1 = Some user"
      using assms(2) by simp
    from awardXP_frame [OF u1, of now "dt_xp_reward task"] obtain res s2 user' where
      a: "awardXP now userId (dt_xp_reward task) ?s1 = Inr (res, s2)" and
      b: "select_user userId s2 = Some user'" "user_tasks s2 = user_tasks ?s1"
         "u_total_points user' = u_total_points user + dt_xp_reward task"
         "u_streak user' = u_streak user" "u_last_activity user' = u_last_activity user"
      by blast
    have "post_api_tasks_complete_server_js now userId taskId s =
            (s2, (200, Success_xpEarned (dt_xp_reward task)))"
      using Some a by (simp add: post_api_tasks_complete_server_js_def Let_def)
    moreover have "filter (same_day_row now userId taskId) (user_tasks s2) = [?row]"
      using none b(2) by (simp add: same_day_row_def)
    ultimately show "\<exists>res s2 user' row.
             awardXP now userId (dt_xp_reward task) (s\<lparr>user_tasks := user_tasks s @ [row]\<rparr>) =
               Inr (res, s2) \<and>
             post_api_tasks_complete_server_js now userId taskId s =
               (s2, (200, Success_xpEarned (dt_xp_reward task))) \<and>
             filter (same_day_row now userId taskId) (user_tasks s2) = [row] \<and>
             ut_completed row \<and>
             select_user userId s2 = Some user' \<and>
             u_total_points user' = u_total_points user + dt_xp_reward task \<and>
             u_streak user' = u_streak user \<and> u_last_activity user' = u_last_activity user"
      using a b by (intro exI [of _ res] exI [of _ s2] exI [of _ user'] exI [of _ ?row]) simp
  qed
  from full reduced Some show ?thesis
    by simp
qed

lemma task_db_tables:
  "users task_db = [example_user, rich_user]"
  "daily_tasks task_db = [\<lparr>dt_id = 5, dt_description = ''Send 5 messages'',
      dt_required_count = 5, dt_xp_reward = 80, dt_active = True\<rparr>]"
  "user_tasks task_db = []"
  "users done_db = [example_user, rich_user]"
  "daily_tasks done_db = daily_tasks task_db"
  "user_tasks done_db = [\<lparr>ut_user_id = 41, ut_task_id = 5, ut_completed = True, ut_progress = 5,
       ut_completed_at = Some 174600000, ut_created_at = 174600000\<rparr>]"
  by (simp_all add: task_db_def done_db_def shop_db_tables)

lemma select_task_db_user:
  "select_user 41 task_db = Some example_user" "select_user 41 done_db = Some example_user"
  by (simp_all add: select_user_def task_db_tables example_user_fields)

text \<open>
  Claim C7 as stated fails on the route of \<open>server.js\<close>. The first user completes
  task 5 on day 2 at 01:00: the answer is the 80 XP earned, but \<open>last_activity\<close> is
  still null afterwards, where running \<open>updateStreak\<close> on that very store would have
  stamped it with the instant of the request.
\<close>

theorem complete_task_server_js_counterexample:
  "snd (post_api_tasks_complete_server_js 176400000 41 5 task_db) = (200, Success_xpEarned 80) \<and>
   map_option u_last_activity
     (select_user 41 (fst (post_api_tasks_complete_server_js 176400000 41 5 task_db))) = Some None \<and>
   map_option u_last_activity
     (select_user 41 (store_after (updateStreak 176400000 41
        (fst (post_api_tasks_complete_server_js 176400000 41 5 task_db))))) = Some (Some 176400000)"
proof -
  let ?s1 = "task_db\<lparr>user_tasks := user_tasks task_db @
     [\<lparr>ut_user_id = 41, ut_task_id = 5, ut_completed = True, ut_progress = 5,
       ut_completed_at = Some 176400000, ut_created_at = 176400000\<rparr>]\<rparr>"
  have u1: "select_user 41 ?s1 = Some example_user"
    by (simp add: select_task_db_user)
  from awardXP_frame [OF u1, of 176400000 80] obtain res s2 user' where
    a: "awardXP 176400000 41 80 ?s1 = Inr (res, s2)" and
    b: "select_user 41 s2 = Some user'" "u_last_activity user' = u_last_activity example_user"
    by blast
  have run: "post_api_tasks_complete_server_js 176400000 41 5 task_db =
               (s2, (200, Success_xpEarned 80))"
    using a by (simp add: post_api_tasks_complete_server_js_def task_db_tables Let_def)
  from updateStreak_keeps [OF b(1), of 176400000] obtain s3 user3 where
    c: "updateStreak 176400000 41 s2 = Inr ((), s3)" "select_user 41 s3 = Some user3"
       "u_last_activity user3 = Some 176400000"
    by blast
  show ?thesis
    using b c by (simp add: run store_after_def example_user_fields)
qed

theorem complete_task_both_servers_witness:
  "length (filter (same_day_row 176400000 41 5) (user_tasks task_db)) \<le> 1 \<and>
   select_user 41 task_db = Some example_user \<and>
   filter (same_day_row 176400000 41 5) (user_tasks task_db) = [] \<and>
   snd (post_api_tasks_complete 176400000 41 5 task_db) = (200, Success_xpEarned 80) \<and>
   snd (post_api_tasks_complete_server_js 176400000 41 5 task_db) = (200, Success_xpEarned 80) \<and>
   length (filter (same_day_row 176400000 41 5) (user_tasks done_db)) \<le> 1 \<and>
   select_user 41 done_db = Some example_user \<and>
   post_api_tasks_complete 176400000 41 5 done_db =
     (done_db, (400, Error_message ''Task already completed today'')) \<and>
   post_api_tasks_complete 176400000 41 7 task_db =
     (task_db, (404, Error_message ''Task not found''))"
proof -
  have u: "select_user 41 task_db = Some example_user" "select_user 41 done_db = Some example_user"
    by (rule select_task_db_user)+
  have n: "filter (same_day_row 176400000 41 5) (user_tasks task_db) = []"
    "filter (same_day_row 176400000 41 7) (user_tasks task_db) = []"
    by (simp_all add: task_db_tables)
  have l: "length (filter (same_day_row 176400000 41 5) (user_tasks task_db)) \<le> 1"
    "length (filter (same_day_row 176400000 41 7) (user_tasks task_db)) \<le> 1"
    "length (filter (same_day_row 176400000 41 5) (user_tasks done_db)) \<le> 1"
    by (simp_all add: task_db_tables)
  have f: "find (\<lambda>t. dt_id t = 5) (daily_tasks task_db) =
             Some \<lparr>dt_id = 5, dt_description = ''Send 5 messages'',
                   dt_required_count = 5, dt_xp_reward = 80, dt_active = True\<rparr>"
    "find (\<lambda>t. dt_id t = 7) (daily_tasks task_db) = None"
    by (simp_all add: task_db_tables)
  have d: "list_ex (\<lambda>row. same_day_row 176400000 41 5 row \<and> ut_completed row) (user_tasks done_db)"
    "\<not> list_ex (\<lambda>row. same_day_row 176400000 41 5 row \<and> ut_completed row) (user_tasks task_db)"
    by (simp_all add: task_db_tables same_day_row_def DATE_def)
  have w1: "snd (post_api_tasks_complete 176400000 41 5 task_db) = (200, Success_xpEarned 80) \<and>
        snd (post_api_tasks_complete_server_js 176400000 41 5 task_db) = (200, Success_xpEarned 80)"
    using complete_task_both_servers [OF l(1) u(1)] n(1) d(2)
    by (auto simp: f)
  have w2: "post_api_tasks_complete 176400000 41 5 done_db =
     (done_db, (400, Error_message ''Task already completed today''))"
    using complete_task_both_servers [OF l(3) u(2)] d(1)
    by (simp add: f task_db_tables)
  have w3: "post_api_tasks_complete 176400000 41 7 task_db =
     (task_db, (404, Error_message ''Task not found''))"
    using complete_task_both_servers [OF l(2) u(1)]
    by (simp add: f)
  show ?thesis
    using u n l w1 w2 w3 by simp
qed

text \<open>
  The route of \<open>server.js\<close> does not look at today's rows either: for a user whose
  row for the task is already completed today it answers success again and appends
  a second row.
\<close>

lemma server_js_completes_again:
  "list_ex (\<lambda>row. same_day_row 176400000 41 5 row \<and> ut_completed row) (user_tasks done_db) \<and>
   snd (post_api_tasks_complete_server_js 176400000 41 5 done_db) = (200, Success_xpEarned 80) \<and>
   length (filter (same_day_row 176400000 41 5)
     (user_tasks (fst (post_api_tasks_complete_server_js 176400000 41 5 done_db)))) = 2"
proof -
  let ?s1 = "done_db\<lparr>user_tasks := user_tasks done_db @
     [\<lparr>ut_user_id = 41, ut_task_id = 5, ut_completed = True, ut_progress = 5,
       ut_completed_at = Some 176400000, ut_created_at = 176400000\<rparr>]\<rparr>"
  have u1: "select_user 41 ?s1 = Some example_user"
    by (simp add: select_task_db_user)
  from awardXP_frame [OF u1, of 176400000 80] obtain res s2 where
    a: "awardXP 176400000 41 80 ?s1 = Inr (res, s2)" and
    b: "user_tasks s2 = user_tasks ?s1"
    by blast
  have run: "post_api_tasks_complete_server_js 176400000 41 5 done_db =
               (s2, (200, Success_xpEarned 80))"
    using a by (simp add: post_api_tasks_complete_server_js_def task_db_tables Let_def)
  show ?thesis
    using b by (simp add: run task_db_tables same_day_row_def DATE_def)
qed

end
